theory Spec2Isabelle
  imports Main "HOL-Library.Word"
begin

section \<open>PathCaptcha\_FHE: the contract as a state transformer\<close>

text \<open>
  The contract \<^verbatim>\<open>PathCaptcha_FHE\<close> (Solidity 0.8.24) is embedded as functions on a record
  of its storage. The conventions:
  \<^item> \<^verbatim>\<open>uint256\<close> is \<open>256 word\<close>; Solidity 0.8 arithmetic is checked, so \<^verbatim>\<open>+= 1\<close> on the
    largest value is the panic \<open>0x11\<close>, written out below;
  \<^item> a \<^verbatim>\<open>mapping\<close> is a total function: every key holds the zero value until written;
  \<^item> a dynamic array is a list, and a read outside its bounds is the panic \<open>0x32\<close>;
  \<^item> a \<^verbatim>\<open>require\<close> that fails, a panic, and a revert raised inside a library call are
    values of type \<open>error\<close>; a call returns \<open>error + state\<close>, and \<open>transact\<close> gives the
    transaction semantics of the EVM (a reverted call leaves the state as it was);
  \<^item> the FHE library is not part of the repository. A ciphertext \<^verbatim>\<open>euint32\<close> is represented
    by the 32-bit plaintext it encrypts and \<^verbatim>\<open>ebool\<close> by the boolean it encrypts; every
    homomorphic primitive is the plaintext operation (subtraction wraps modulo \<open>2^32\<close>), and
    an uninitialised handle is the encryption of 0. Access control on handles is not modelled;
  \<^item> the two calls into the decryption oracle are parameters: the request identifier that
    \<^verbatim>\<open>FHE.requestDecryption\<close> returns is an argument of \<open>verifySolution\<close>, and the verdict of
    \<^verbatim>\<open>FHE.checkSignatures\<close> is a predicate \<open>ck\<close> on its three arguments;
  \<^item> events and the decryption requests handed to the oracle are logged in two extra fields
    of the state, so that what a call emits can be stated.
\<close>

subsection \<open>Values and errors\<close>

type_synonym uint256 = "256 word"
type_synonym euint32 = "32 word"
type_synonym ebool = bool
type_synonym bytes = "8 word list"

datatype error =
    Require string
  | Panic nat
  | CheckSignaturesReverted
  | AbiDecodeReverted

definition transact :: "('s \<Rightarrow> error + 's) \<Rightarrow> 's \<Rightarrow> error option \<times> 's" where
  "transact f s = (case f s of Inl e \<Rightarrow> (Some e, s) | Inr s' \<Rightarrow> (None, s'))"

definition andThen :: "error + 'a \<Rightarrow> ('a \<Rightarrow> error + 'b) \<Rightarrow> error + 'b" where
  "andThen m f = (case m of Inl e \<Rightarrow> Inl e | Inr x \<Rightarrow> f x)"

definition index :: "'a list \<Rightarrow> nat \<Rightarrow> error + 'a" where
  "index xs i = (if i < length xs then Inr (xs ! i) else Inl (Panic 0x32))"

subsection \<open>The homomorphic primitives used by the contract\<close>

definition FHE_asEbool :: "bool \<Rightarrow> ebool" where
  "FHE_asEbool b = b"

definition FHE_asEuint32 :: "32 word \<Rightarrow> euint32" where
  "FHE_asEuint32 n = n"

definition FHE_eq :: "euint32 \<Rightarrow> euint32 \<Rightarrow> ebool" where
  "FHE_eq a b = (a = b)"

definition FHE_sub :: "euint32 \<Rightarrow> euint32 \<Rightarrow> euint32" where
  "FHE_sub a b = a - b"

definition FHE_and :: "ebool \<Rightarrow> ebool \<Rightarrow> ebool" where
  "FHE_and a b = (a \<and> b)"

definition FHE_or :: "ebool \<Rightarrow> ebool \<Rightarrow> ebool" where
  "FHE_or a b = (a \<or> b)"

text \<open>
  \<^verbatim>\<open>abi.decode(cleartexts, (bool))\<close>: the first 32 bytes are read as a big-endian integer;
  the decoder reverts when fewer than 32 bytes are given or the integer is neither 0 nor 1.
\<close>

definition abi_decode_bool :: "bytes \<Rightarrow> error + bool" where
  "abi_decode_bool cleartexts =
     (if length cleartexts < 32 then Inl AbiDecodeReverted
      else let v = foldl (\<lambda>a b. a * 256 + unat b) (0::nat) (take 32 cleartexts)
           in if v = 0 then Inr False
              else if v = 1 then Inr True
              else Inl AbiDecodeReverted)"

subsection \<open>Storage\<close>

record EncryptedMaze =
  mazeId :: uint256
  encryptedGrid :: "euint32 list list"
  encryptedStartX :: euint32
  encryptedStartY :: euint32
  encryptedEndX :: euint32
  encryptedEndY :: euint32
  timestamp :: uint256

record EncryptedSolution =
  solutionId :: uint256
  encryptedPathX :: "euint32 list"
  encryptedPathY :: "euint32 list"
  mazeId :: uint256

record DecryptedVerification =
  isValid :: bool
  isRevealed :: bool

datatype event =
    MazeGenerated uint256 uint256
  | SolutionSubmitted uint256 uint256
  | VerificationComplete uint256

record PathCaptcha_FHE =
  mazeCount :: uint256
  solutionCount :: uint256
  encryptedMazes :: "uint256 \<Rightarrow> EncryptedMaze"
  encryptedSolutions :: "uint256 \<Rightarrow> EncryptedSolution"
  solutionVerifications :: "uint256 \<Rightarrow> DecryptedVerification"
  requestToSolutionId :: "uint256 \<Rightarrow> uint256"
  events :: "event list"
  decryptionRequests :: "(uint256 \<times> ebool) list"

definition zeroMaze :: EncryptedMaze where
  "zeroMaze = \<lparr>EncryptedMaze.mazeId = 0, encryptedGrid = [], encryptedStartX = 0,
     encryptedStartY = 0, encryptedEndX = 0, encryptedEndY = 0, timestamp = 0\<rparr>"

definition zeroSolution :: EncryptedSolution where
  "zeroSolution = \<lparr>solutionId = 0, encryptedPathX = [], encryptedPathY = [],
     EncryptedSolution.mazeId = 0\<rparr>"

definition zeroVerification :: DecryptedVerification where
  "zeroVerification = \<lparr>isValid = False, isRevealed = False\<rparr>"

definition deployed :: PathCaptcha_FHE where
  "deployed = \<lparr>mazeCount = 0, solutionCount = 0,
     encryptedMazes = (\<lambda>_. zeroMaze),
     encryptedSolutions = (\<lambda>_. zeroSolution),
     solutionVerifications = (\<lambda>_. zeroVerification),
     requestToSolutionId = (\<lambda>_. 0),
     events = [], decryptionRequests = []\<rparr>"

subsection \<open>The registries\<close>

definition generateEncryptedMaze ::
  "euint32 list list \<Rightarrow> euint32 \<Rightarrow> euint32 \<Rightarrow> euint32 \<Rightarrow> euint32 \<Rightarrow> uint256 \<Rightarrow>
   PathCaptcha_FHE \<Rightarrow> error + PathCaptcha_FHE" where
  "generateEncryptedMaze grid startX startY endX endY block_timestamp s =
     (if mazeCount s = - 1 then Inl (Panic 0x11)
      else let newId = mazeCount s + 1 in
        Inr (s\<lparr>mazeCount := newId,
               encryptedMazes := (encryptedMazes s)(newId :=
                 \<lparr>EncryptedMaze.mazeId = newId, encryptedGrid = grid,
                  encryptedStartX = startX, encryptedStartY = startY,
                  encryptedEndX = endX, encryptedEndY = endY,
                  timestamp = block_timestamp\<rparr>),
               events := events s @ [MazeGenerated newId block_timestamp]\<rparr>))"

definition submitEncryptedSolution ::
  "uint256 \<Rightarrow> euint32 list \<Rightarrow> euint32 list \<Rightarrow> PathCaptcha_FHE \<Rightarrow> error + PathCaptcha_FHE" where
  "submitEncryptedSolution maze_id pathX pathY s =
     (if solutionCount s = - 1 then Inl (Panic 0x11)
      else let newId = solutionCount s + 1 in
        Inr (s\<lparr>solutionCount := newId,
               encryptedSolutions := (encryptedSolutions s)(newId :=
                 \<lparr>solutionId = newId, encryptedPathX = pathX, encryptedPathY = pathY,
                  EncryptedSolution.mazeId = maze_id\<rparr>),
               solutionVerifications := (solutionVerifications s)(newId :=
                 \<lparr>isValid = False, isRevealed = False\<rparr>),
               events := events s @ [SolutionSubmitted newId maze_id]\<rparr>))"

subsection \<open>The validity circuit\<close>

definition checkPathAdjacency :: "euint32 \<Rightarrow> euint32 \<Rightarrow> euint32 \<Rightarrow> euint32 \<Rightarrow> ebool" where
  "checkPathAdjacency x1 y1 x2 y2 =
     (let xAdjacent = FHE_eq (FHE_sub x1 x2) (FHE_asEuint32 1);
          yAdjacent = FHE_eq (FHE_sub y1 y2) (FHE_asEuint32 1)
      in FHE_or xAdjacent yAdjacent)"

definition validStart :: "EncryptedSolution \<Rightarrow> EncryptedMaze \<Rightarrow> error + ebool" where
  "validStart solution maze =
     andThen (index (encryptedPathX solution) 0) (\<lambda>x0.
     andThen (index (encryptedPathY solution) 0) (\<lambda>y0.
       Inr (FHE_and (FHE_eq x0 (encryptedStartX maze)) (FHE_eq y0 (encryptedStartY maze)))))"

definition validEnd :: "EncryptedSolution \<Rightarrow> EncryptedMaze \<Rightarrow> error + ebool" where
  "validEnd solution maze =
     (if length (encryptedPathX solution) = 0 then Inl (Panic 0x11)
      else let lastIdx = length (encryptedPathX solution) - 1 in
        andThen (index (encryptedPathX solution) lastIdx) (\<lambda>xl.
        andThen (index (encryptedPathY solution) lastIdx) (\<lambda>yl.
          Inr (FHE_and (FHE_eq xl (encryptedEndX maze)) (FHE_eq yl (encryptedEndY maze))))))"

text \<open>The body of the loop at index \<open>i\<close> (\<open>1 \<le> i\<close>), from the current \<open>isValid\<close> to the next.\<close>

definition loopBody :: "EncryptedSolution \<Rightarrow> EncryptedMaze \<Rightarrow> nat \<Rightarrow> ebool \<Rightarrow> error + ebool" where
  "loopBody solution maze i isValid0 =
     andThen (index (encryptedPathX solution) i) (\<lambda>xi.
     andThen (index (encryptedPathX solution) (i - 1)) (\<lambda>xp.
     andThen (index (encryptedPathY solution) i) (\<lambda>yi.
     andThen (index (encryptedPathY solution) (i - 1)) (\<lambda>yp.
       let adjacent = FHE_or (FHE_eq (FHE_sub xi xp) (FHE_asEuint32 1))
                             (FHE_eq (FHE_sub yi yp) (FHE_asEuint32 1));
           isValid1 = FHE_and isValid0 adjacent
       in
     andThen (index (encryptedGrid maze) 0) (\<lambda>row0.
     andThen (index row0 0) (\<lambda>cellValue.
       let isPath = FHE_eq cellValue (FHE_asEuint32 0)
       in Inr (FHE_and isValid1 isPath)))))))"

function pathLoop :: "EncryptedSolution \<Rightarrow> EncryptedMaze \<Rightarrow> nat \<Rightarrow> ebool \<Rightarrow> error + ebool" where
  "pathLoop solution maze i isValid0 =
     (if i < length (encryptedPathX solution)
      then (case loopBody solution maze i isValid0 of
              Inl e \<Rightarrow> Inl e
            | Inr isValid1 \<Rightarrow> pathLoop solution maze (i + 1) isValid1)
      else Inr isValid0)"
  by pat_completeness auto
termination
  by (relation "measure (\<lambda>(solution, maze, i, v). length (encryptedPathX solution) - i)") auto

definition circuit :: "EncryptedSolution \<Rightarrow> EncryptedMaze \<Rightarrow> error + ebool" where
  "circuit solution maze =
     (let isValid0 = FHE_asEbool True in
      andThen (validStart solution maze) (\<lambda>vs.
      let isValid1 = FHE_and isValid0 vs in
      andThen (validEnd solution maze) (\<lambda>ve.
      let isValid2 = FHE_and isValid1 ve in
      pathLoop solution maze 1 isValid2)))"

subsection \<open>Requesting and resolving a decryption\<close>

definition verifySolution ::
  "uint256 \<Rightarrow> uint256 \<Rightarrow> PathCaptcha_FHE \<Rightarrow> error + PathCaptcha_FHE" where
  "verifySolution solution_id reqId s =
     (let solution = encryptedSolutions s solution_id;
          maze = encryptedMazes s (EncryptedSolution.mazeId solution)
      in case circuit solution maze of
           Inl e \<Rightarrow> Inl e
         | Inr isValid_ct \<Rightarrow>
             Inr (s\<lparr>requestToSolutionId := (requestToSolutionId s)(reqId := solution_id),
                    decryptionRequests := decryptionRequests s @ [(reqId, isValid_ct)]\<rparr>))"

definition decryptVerification ::
  "(uint256 \<Rightarrow> bytes \<Rightarrow> bytes \<Rightarrow> bool) \<Rightarrow> uint256 \<Rightarrow> bytes \<Rightarrow> bytes \<Rightarrow>
   PathCaptcha_FHE \<Rightarrow> error + PathCaptcha_FHE" where
  "decryptVerification ck requestId cleartexts proof s =
     (let solution_id = requestToSolutionId s requestId in
      if solution_id = 0 then Inl (Require ''Invalid request'')
      else if isRevealed (solutionVerifications s solution_id)
        then Inl (Require ''Already verified'')
      else if \<not> ck requestId cleartexts proof then Inl CheckSignaturesReverted
      else case abi_decode_bool cleartexts of
             Inl e \<Rightarrow> Inl e
           | Inr b \<Rightarrow>
               Inr (s\<lparr>solutionVerifications := (solutionVerifications s)(solution_id :=
                        (solutionVerifications s solution_id)\<lparr>isValid := b, isRevealed := True\<rparr>),
                      events := events s @ [VerificationComplete solution_id]\<rparr>))"

definition getVerificationResult :: "uint256 \<Rightarrow> PathCaptcha_FHE \<Rightarrow> bool \<times> bool" where
  "getVerificationResult solution_id s =
     (let v = solutionVerifications s solution_id in (isValid v, isRevealed v))"

subsection \<open>Transactions and reachable states\<close>

datatype call =
    GenerateEncryptedMaze "euint32 list list" euint32 euint32 euint32 euint32 uint256
  | SubmitEncryptedSolution uint256 "euint32 list" "euint32 list"
  | VerifySolution uint256 uint256
  | DecryptVerification uint256 bytes bytes

fun dispatch ::
  "(uint256 \<Rightarrow> bytes \<Rightarrow> bytes \<Rightarrow> bool) \<Rightarrow> call \<Rightarrow> PathCaptcha_FHE \<Rightarrow> error + PathCaptcha_FHE" where
  "dispatch ck (GenerateEncryptedMaze g sx sy ex ey ts) = generateEncryptedMaze g sx sy ex ey ts"
| "dispatch ck (SubmitEncryptedSolution m px py) = submitEncryptedSolution m px py"
| "dispatch ck (VerifySolution sid rid) = verifySolution sid rid"
| "dispatch ck (DecryptVerification rid c p) = decryptVerification ck rid c p"

definition exec ::
  "(uint256 \<Rightarrow> bytes \<Rightarrow> bytes \<Rightarrow> bool) \<Rightarrow> PathCaptcha_FHE \<Rightarrow> call \<Rightarrow> PathCaptcha_FHE" where
  "exec ck s c = snd (transact (dispatch ck c) s)"

definition run :: "(uint256 \<Rightarrow> bytes \<Rightarrow> bytes \<Rightarrow> bool) \<Rightarrow> call list \<Rightarrow> PathCaptcha_FHE" where
  "run ck cs = foldl (exec ck) deployed cs"

subsection \<open>Concrete sessions\<close>

text \<open>
  The inputs at which the theorems below are evaluated: \<open>demoOracle\<close> is a signature
  check that accepts exactly the proof \<open>[1]\<close>, \<open>cleartextTrue\<close> is the ABI encoding of
  \<open>true\<close>, and the sessions are call sequences from the deployed contract, in which the
  oracle hands out the request identifiers 7 and 8. In \<open>wallGrid\<close> the cells
  \<open>[1][0]\<close> and \<open>[0][1]\<close> are walls, so that the point \<open>(1, 0)\<close> of the path is a wall
  whichever of its coordinates is taken as the row.
\<close>

definition demoOracle :: "uint256 \<Rightarrow> bytes \<Rightarrow> bytes \<Rightarrow> bool" where
  "demoOracle requestId cleartexts proof = (proof = [1])"

definition cleartextTrue :: bytes where
  "cleartextTrue = [0,0,0,0,0,0,0,0, 0,0,0,0,0,0,0,0, 0,0,0,0,0,0,0,0, 0,0,0,0,0,0,0,1]"

definition openGrid :: "euint32 list list" where
  "openGrid = [[0,0,0],[0,0,0],[0,0,0]]"

definition wallGrid :: "euint32 list list" where
  "wallGrid = [[0,1,0],[1,0,0],[0,0,0]]"

definition session :: "call list" where
  "session = [GenerateEncryptedMaze openGrid 0 0 2 2 1000,
              SubmitEncryptedSolution 1 [0,1,2,2,2] [0,0,0,1,2],
              VerifySolution 1 7]"

definition wallSession :: "call list" where
  "wallSession = [GenerateEncryptedMaze wallGrid 0 0 2 2 1000,
                  SubmitEncryptedSolution 1 [0,1,2,2,2] [0,0,0,1,2],
                  VerifySolution 1 7,
                  DecryptVerification 7 cleartextTrue [1]]"

definition diagonalSession :: "call list" where
  "diagonalSession = [GenerateEncryptedMaze [[0,0],[0,0]] 0 0 1 1 1000,
                      SubmitEncryptedSolution 1 [0,1] [0,1],
                      VerifySolution 1 7]"

definition backwardSession :: "call list" where
  "backwardSession = [GenerateEncryptedMaze [[0,0],[0,0]] 1 0 0 0 1000,
                      SubmitEncryptedSolution 1 [1,0] [0,0],
                      VerifySolution 1 7]"

definition revealedSession :: "call list" where
  "revealedSession = session @ [DecryptVerification 7 cleartextTrue [1]]"

definition orphanSession :: "call list" where
  "orphanSession = [SubmitEncryptedSolution 9 [0] [0]]"

definition laterCalls :: "call list" where
  "laterCalls = [SubmitEncryptedSolution 1 [0] [0],
                 VerifySolution 2 8,
                 DecryptVerification 8 cleartextTrue [1],
                 DecryptVerification 7 (replicate 32 0) [1]]"

text \<open>
  The invariant of the reachable states: the solution with identifier 0 and every solution
  above \<open>solutionCount\<close> are the zero value, and every pending request points to an
  identifier that has been allocated.
\<close>

definition wellFormed :: "PathCaptcha_FHE \<Rightarrow> bool" where
  "wellFormed s \<longleftrightarrow>
     (\<forall>i. i = 0 \<or> solutionCount s < i \<longrightarrow>
        encryptedSolutions s i = zeroSolution \<and> solutionVerifications s i = zeroVerification)
     \<and> (\<forall>r. requestToSolutionId s r \<le> solutionCount s)"

section \<open>Lemmas about the circuit\<close>

lemma andThen_simps [simp]:
  "andThen (Inl e) f = Inl e"
  "andThen (Inr x) f = f x"
  by (simp_all add: andThen_def)

declare pathLoop.simps [simp del]

lemma pathLoop_past_end:
  "length (encryptedPathX solution) \<le> i \<Longrightarrow> pathLoop solution maze i v = Inr v"
  by (simp add: pathLoop.simps)

lemma loopBody_defined:
  assumes "0 < i" "i < length (encryptedPathX solution)"
    "length (encryptedPathX solution) \<le> length (encryptedPathY solution)"
    "encryptedGrid maze \<noteq> []" "hd (encryptedGrid maze) \<noteq> []"
  shows "\<exists>v'. loopBody solution maze i v = Inr v'"
  using assms by (cases "encryptedGrid maze") (auto simp: loopBody_def index_def Let_def)

lemma loopBody_no_cell:
  assumes "encryptedGrid maze = [] \<or> hd (encryptedGrid maze) = []"
  shows "loopBody solution maze i v = Inl (Panic 0x32)"
  using assms
  by (cases "encryptedGrid maze") (auto simp: loopBody_def index_def Let_def split: sum.splits)

lemma pathLoop_defined:
  assumes "0 < i"
    "length (encryptedPathX solution) \<le> length (encryptedPathY solution)"
    "encryptedGrid maze \<noteq> []" "hd (encryptedGrid maze) \<noteq> []"
  shows "\<exists>v'. pathLoop solution maze i v = Inr v'"
  using assms
proof (induction solution maze i v rule: pathLoop.induct)
  case (1 solution maze i isValid0)
  show ?case
  proof (cases "i < length (encryptedPathX solution)")
    case False
    then show ?thesis by (simp add: pathLoop.simps)
  next
    case True
    from loopBody_defined [OF "1.prems"(1) True "1.prems"(2-4)]
    obtain v' where b: "loopBody solution maze i isValid0 = Inr v'" by blast
    from "1.IH" [OF True b] "1.prems" obtain v'' where
      "pathLoop solution maze (i + 1) v' = Inr v''" by auto
    with True b show ?thesis by (subst pathLoop.simps) simp
  qed
qed

lemma pathLoop_no_cell:
  assumes "i < length (encryptedPathX solution)"
    "encryptedGrid maze = [] \<or> hd (encryptedGrid maze) = []"
  shows "pathLoop solution maze i v = Inl (Panic 0x32)"
  using assms by (subst pathLoop.simps) (simp add: loopBody_no_cell)

lemma circuit_defined:
  assumes "0 < length (encryptedPathX solution)"
    "length (encryptedPathX solution) \<le> length (encryptedPathY solution)"
    "2 \<le> length (encryptedPathX solution) \<longrightarrow>
       encryptedGrid maze \<noteq> [] \<and> hd (encryptedGrid maze) \<noteq> []"
  shows "\<exists>v. circuit solution maze = Inr v"
proof -
  from assms have ny: "0 < length (encryptedPathY solution)" by linarith
  from assms have ly: "length (encryptedPathX solution) - 1 < length (encryptedPathY solution)"
    by linarith
  from assms(1) ny have "\<exists>vs. validStart solution maze = Inr vs"
    by (simp add: validStart_def index_def)
  then obtain vs where s: "validStart solution maze = Inr vs" ..
  from assms(1) ly have "\<exists>ve. validEnd solution maze = Inr ve"
    by (simp add: validEnd_def index_def Let_def)
  then obtain ve where e: "validEnd solution maze = Inr ve" ..
  have "\<exists>v. pathLoop solution maze 1 (FHE_and (FHE_and (FHE_asEbool True) vs) ve) = Inr v"
  proof (cases "2 \<le> length (encryptedPathX solution)")
    case True
    with assms show ?thesis by (intro pathLoop_defined) auto
  next
    case False
    then show ?thesis by (simp add: pathLoop_past_end)
  qed
  with s e show ?thesis by (simp add: circuit_def Let_def)
qed

lemma circuit_panics:
  assumes "\<not> (0 < length (encryptedPathX solution) \<and>
    length (encryptedPathX solution) \<le> length (encryptedPathY solution) \<and>
    (2 \<le> length (encryptedPathX solution) \<longrightarrow>
       encryptedGrid maze \<noteq> [] \<and> hd (encryptedGrid maze) \<noteq> []))"
  shows "circuit solution maze = Inl (Panic 0x32)"
proof -
  consider (a) "encryptedPathX solution = []"
    | (b) "encryptedPathX solution \<noteq> []" "encryptedPathY solution = []"
    | (c) "encryptedPathX solution \<noteq> []" "encryptedPathY solution \<noteq> []"
          "length (encryptedPathY solution) < length (encryptedPathX solution)"
    | (d) "encryptedPathX solution \<noteq> []"
          "length (encryptedPathX solution) \<le> length (encryptedPathY solution)"
          "2 \<le> length (encryptedPathX solution)"
          "encryptedGrid maze = [] \<or> hd (encryptedGrid maze) = []"
    using assms by fastforce
  then show ?thesis
  proof cases
    case a
    then show ?thesis by (simp add: circuit_def validStart_def index_def)
  next
    case b
    then show ?thesis by (simp add: circuit_def validStart_def index_def)
  next
    case c
    then have "\<not> length (encryptedPathX solution) - 1 < length (encryptedPathY solution)"
      by linarith
    with c show ?thesis
      by (simp add: circuit_def validStart_def validEnd_def index_def Let_def)
  next
    case d
    then have "pathLoop solution maze 1 v = Inl (Panic 0x32)" for v
      by (intro pathLoop_no_cell) auto
    moreover from d have "encryptedPathY solution \<noteq> []"
      "length (encryptedPathX solution) - 1 < length (encryptedPathY solution)" by auto
    ultimately show ?thesis using d(1)
      by (simp add: circuit_def validStart_def validEnd_def index_def Let_def)
  qed
qed

section \<open>The invariant holds in every reachable state\<close>

lemma word_inc_facts:
  fixes c :: uint256
  assumes "c \<noteq> - 1"
  shows "c + 1 \<noteq> 0" and "c < c + 1" and "c + 1 < i \<Longrightarrow> c < i" and "x \<le> c \<Longrightarrow> x \<le> c + 1"
proof -
  show "c + 1 \<noteq> 0" using assms eq_neg_iff_add_eq_0 by blast
  show lt: "c < c + 1" using assms
    by (metis inc_less_eq_triv_imp linorder_less_linear word_le_less_eq)
  show "c + 1 < i \<Longrightarrow> c < i" using lt by simp
  show "x \<le> c \<Longrightarrow> x \<le> c + 1" using lt by simp
qed

lemma circuit_Inr_nonempty:
  "circuit solution maze = Inr v \<Longrightarrow> encryptedPathX solution \<noteq> []"
  using circuit_panics [of solution maze] by auto

lemma exec_simps:
  "exec ck s (GenerateEncryptedMaze g sx sy ex ey ts) =
     (case generateEncryptedMaze g sx sy ex ey ts s of Inl e \<Rightarrow> s | Inr s' \<Rightarrow> s')"
  "exec ck s (SubmitEncryptedSolution m px py) =
     (case submitEncryptedSolution m px py s of Inl e \<Rightarrow> s | Inr s' \<Rightarrow> s')"
  "exec ck s (VerifySolution sid rid) =
     (case verifySolution sid rid s of Inl e \<Rightarrow> s | Inr s' \<Rightarrow> s')"
  "exec ck s (DecryptVerification rid c p) =
     (case decryptVerification ck rid c p s of Inl e \<Rightarrow> s | Inr s' \<Rightarrow> s')"
  by (simp_all add: exec_def transact_def split: sum.splits)

lemma wellFormed_deployed: "wellFormed deployed"
  by (simp add: wellFormed_def deployed_def)

lemma wellFormed_generate:
  "wellFormed s \<Longrightarrow> generateEncryptedMaze g sx sy ex ey ts s = Inr s' \<Longrightarrow> wellFormed s'"
  by (auto simp: wellFormed_def generateEncryptedMaze_def Let_def split: if_splits)

lemma wellFormed_submit:
  assumes "wellFormed s" "submitEncryptedSolution m px py s = Inr s'"
  shows "wellFormed s'"
proof -
  from assms(2) have c: "solutionCount s \<noteq> - 1"
    by (auto simp: submitEncryptedSolution_def split: if_splits)
  note w = word_inc_facts [OF c]
  from assms(2) c have s': "s' = s\<lparr>solutionCount := solutionCount s + 1,
       encryptedSolutions := (encryptedSolutions s)(solutionCount s + 1 :=
         \<lparr>solutionId = solutionCount s + 1, encryptedPathX = px, encryptedPathY = py,
          EncryptedSolution.mazeId = m\<rparr>),
       solutionVerifications := (solutionVerifications s)(solutionCount s + 1 :=
         \<lparr>isValid = False, isRevealed = False\<rparr>),
       events := events s @ [SolutionSubmitted (solutionCount s + 1) m]\<rparr>"
    by (simp add: submitEncryptedSolution_def Let_def)
  show ?thesis
    unfolding wellFormed_def
  proof (intro conjI allI impI)
    fix i assume i: "i = 0 \<or> solutionCount s' < i"
    then have "i \<noteq> solutionCount s + 1" using w(1) s' by auto
    moreover from i have "i = 0 \<or> solutionCount s < i" using w(3) s' by auto
    ultimately show "encryptedSolutions s' i = zeroSolution"
      and "solutionVerifications s' i = zeroVerification"
      using assms(1) s' by (auto simp: wellFormed_def)
  next
    fix r
    from assms(1) have "requestToSolutionId s r \<le> solutionCount s"
      by (simp add: wellFormed_def)
    then show "requestToSolutionId s' r \<le> solutionCount s'" using w(4) s' by simp
  qed
qed

lemma verifySolution_Inr:
  assumes "verifySolution sid rid s = Inr s'"
  shows "\<exists>v. circuit (encryptedSolutions s sid)
            (encryptedMazes s (EncryptedSolution.mazeId (encryptedSolutions s sid))) = Inr v \<and>
          s' = s\<lparr>requestToSolutionId := (requestToSolutionId s)(rid := sid),
                 decryptionRequests := decryptionRequests s @ [(rid, v)]\<rparr>"
  using assms by (auto simp: verifySolution_def Let_def split: sum.splits)

lemma verifySolution_allocated:
  assumes "wellFormed s" "verifySolution sid rid s = Inr s'"
  shows "sid \<noteq> 0" and "sid \<le> solutionCount s"
proof -
  from verifySolution_Inr [OF assms(2)] circuit_Inr_nonempty
  have "encryptedPathX (encryptedSolutions s sid) \<noteq> []" by blast
  then have "encryptedSolutions s sid \<noteq> zeroSolution" by (auto simp: zeroSolution_def)
  with assms(1) have "\<not> (sid = 0 \<or> solutionCount s < sid)" by (auto simp: wellFormed_def)
  then show "sid \<noteq> 0" and "sid \<le> solutionCount s" by auto
qed

lemma wellFormed_verify:
  assumes "wellFormed s" "verifySolution sid rid s = Inr s'"
  shows "wellFormed s'"
proof -
  from verifySolution_Inr [OF assms(2)] obtain v where
    s': "s' = s\<lparr>requestToSolutionId := (requestToSolutionId s)(rid := sid),
                 decryptionRequests := decryptionRequests s @ [(rid, v)]\<rparr>" by blast
  from verifySolution_allocated [OF assms] assms(1) show ?thesis
    by (auto simp: wellFormed_def s')
qed

lemma decryptVerification_Inr:
  assumes "decryptVerification ck r c p s = Inr s'"
  shows "requestToSolutionId s r \<noteq> 0"
    and "\<not> isRevealed (solutionVerifications s (requestToSolutionId s r))"
    and "ck r c p"
    and "\<exists>b. abi_decode_bool c = Inr b \<and>
          s' = s\<lparr>solutionVerifications := (solutionVerifications s)(requestToSolutionId s r :=
                   (solutionVerifications s (requestToSolutionId s r))
                     \<lparr>isValid := b, isRevealed := True\<rparr>),
                 events := events s @ [VerificationComplete (requestToSolutionId s r)]\<rparr>"
  using assms by (auto simp: decryptVerification_def Let_def split: if_splits sum.splits)

lemma wellFormed_decrypt:
  assumes "wellFormed s" "decryptVerification ck r c p s = Inr s'"
  shows "wellFormed s'"
proof -
  from decryptVerification_Inr(4) [OF assms(2)] obtain b where
    s': "s' = s\<lparr>solutionVerifications := (solutionVerifications s)(requestToSolutionId s r :=
                   (solutionVerifications s (requestToSolutionId s r))
                     \<lparr>isValid := b, isRevealed := True\<rparr>),
                 events := events s @ [VerificationComplete (requestToSolutionId s r)]\<rparr>"
    by blast
  have nz: "requestToSolutionId s r \<noteq> 0" by (rule decryptVerification_Inr(1) [OF assms(2)])
  from assms(1) have le: "requestToSolutionId s r \<le> solutionCount s"
    by (simp add: wellFormed_def)
  have "i \<noteq> requestToSolutionId s r" if "i = 0 \<or> solutionCount s < i" for i
    using that nz le by auto
  with assms(1) show ?thesis by (auto simp: wellFormed_def s')
qed

lemma wellFormed_exec: "wellFormed s \<Longrightarrow> wellFormed (exec ck s c)"
  by (cases c)
     (auto simp: exec_simps split: sum.splits
           intro: wellFormed_generate wellFormed_submit wellFormed_verify wellFormed_decrypt)

lemma run_snoc: "run ck (cs @ [c]) = exec ck (run ck cs) c"
  by (simp add: run_def)

lemma wellFormed_run: "wellFormed (run ck cs)"
  by (induction cs rule: rev_induct)
     (simp_all add: run_snoc wellFormed_exec, simp add: run_def wellFormed_deployed)

lemma exec_keeps_revealed:
  assumes "wellFormed s" "isRevealed (solutionVerifications s i)"
  shows "solutionVerifications (exec ck s c) i = solutionVerifications s i"
proof (cases c)
  case (GenerateEncryptedMaze g sx sy ex ey ts)
  then show ?thesis
    by (auto simp: exec_simps generateEncryptedMaze_def Let_def split: sum.splits if_splits)
next
  case (SubmitEncryptedSolution m px py)
  show ?thesis
  proof (cases "solutionCount s = - 1")
    case True
    then show ?thesis
      by (simp add: SubmitEncryptedSolution exec_simps submitEncryptedSolution_def)
  next
    case False
    from assms have "\<not> (i = 0 \<or> solutionCount s < i)"
      by (auto simp: wellFormed_def zeroVerification_def)
    with word_inc_facts(2) [OF False] have "i \<noteq> solutionCount s + 1" by auto
    with False show ?thesis
      by (simp add: SubmitEncryptedSolution exec_simps submitEncryptedSolution_def Let_def)
  qed
next
  case (VerifySolution sid rid)
  then show ?thesis
    by (auto simp: exec_simps split: sum.splits dest!: verifySolution_Inr)
next
  case (DecryptVerification r cl p)
  show ?thesis
  proof (cases "decryptVerification ck r cl p s")
    case (Inl e)
    then show ?thesis by (simp add: DecryptVerification exec_simps)
  next
    case (Inr s')
    from decryptVerification_Inr(2) [OF Inr] assms(2)
    have "i \<noteq> requestToSolutionId s r" by auto
    with decryptVerification_Inr(4) [OF Inr] Inr show ?thesis
      by (auto simp: DecryptVerification exec_simps)
  qed
qed

lemma exec_pending_other:
  assumes "\<forall>sid. c \<noteq> VerifySolution sid r"
  shows "requestToSolutionId (exec ck s c) r = requestToSolutionId s r"
proof (cases c)
  case (VerifySolution sid rid)
  with assms have "rid \<noteq> r" by auto
  then show ?thesis
    by (auto simp: VerifySolution exec_simps split: sum.splits dest!: verifySolution_Inr)
next
  case (DecryptVerification r' cl p)
  then show ?thesis
    by (auto simp: exec_simps split: sum.splits dest!: decryptVerification_Inr(4))
qed (auto simp: exec_simps generateEncryptedMaze_def submitEncryptedSolution_def Let_def
      split: sum.splits if_splits)

lemma run_never_requested:
  "\<forall>sid. VerifySolution sid r \<notin> set cs \<Longrightarrow> requestToSolutionId (run ck cs) r = 0"
proof (induction cs rule: rev_induct)
  case Nil
  show ?case by (simp add: run_def deployed_def)
next
  case (snoc c cs)
  then have "\<forall>sid. c \<noteq> VerifySolution sid r" by auto
  from exec_pending_other [OF this] snoc show ?case by (simp add: run_snoc)
qed

section \<open>Evaluation and replay\<close>

lemmas eval_simps = run_def exec_def transact_def generateEncryptedMaze_def
  submitEncryptedSolution_def verifySolution_def decryptVerification_def circuit_def
  validStart_def validEnd_def loopBody_def index_def pathLoop.simps Let_def
  FHE_eq_def FHE_and_def FHE_or_def FHE_sub_def FHE_asEbool_def FHE_asEuint32_def
  deployed_def zeroMaze_def zeroSolution_def zeroVerification_def abi_decode_bool_def
  checkPathAdjacency_def getVerificationResult_def
  demoOracle_def cleartextTrue_def openGrid_def wallGrid_def session_def wallSession_def
  diagonalSession_def backwardSession_def revealedSession_def orphanSession_def

lemma run_keeps_revealed:
  "isRevealed (solutionVerifications (run ck cs) i) \<Longrightarrow>
   solutionVerifications (run ck (cs @ cs')) i = solutionVerifications (run ck cs) i"
proof (induction cs' rule: rev_induct)
  case Nil
  show ?case by simp
next
  case (snoc c cs')
  then have eq: "solutionVerifications (run ck (cs @ cs')) i = solutionVerifications (run ck cs) i"
    by simp
  with snoc.prems have "isRevealed (solutionVerifications (run ck (cs @ cs')) i)" by simp
  from exec_keeps_revealed [OF wellFormed_run this, of ck c] eq
  show ?case by (simp add: run_snoc [symmetric])
qed

lemma decryptVerification_replay:
  assumes "decryptVerification ck r c p s = Inr s'"
  shows "requestToSolutionId s' = requestToSolutionId s"
    and "isRevealed (solutionVerifications s' (requestToSolutionId s r))"
    and "decryptVerification ck r c' p' s' = Inl (Require ''Already verified'')"
proof -
  from decryptVerification_Inr(4) [OF assms] obtain b where
    s': "s' = s\<lparr>solutionVerifications := (solutionVerifications s)(requestToSolutionId s r :=
                   (solutionVerifications s (requestToSolutionId s r))
                     \<lparr>isValid := b, isRevealed := True\<rparr>),
                 events := events s @ [VerificationComplete (requestToSolutionId s r)]\<rparr>"
    by blast
  show "requestToSolutionId s' = requestToSolutionId s" by (simp add: s')
  show "isRevealed (solutionVerifications s' (requestToSolutionId s r))" by (simp add: s')
  from decryptVerification_Inr(1) [OF assms]
  show "decryptVerification ck r c' p' s' = Inl (Require ''Already verified'')"
    by (simp add: s' decryptVerification_def)
qed

lemma verifySolution_cases:
  "verifySolution sid rid s =
     (case circuit (encryptedSolutions s sid)
             (encryptedMazes s (EncryptedSolution.mazeId (encryptedSolutions s sid))) of
        Inl e \<Rightarrow> Inl e
      | Inr v \<Rightarrow> Inr (s\<lparr>requestToSolutionId := (requestToSolutionId s)(rid := sid),
                         decryptionRequests := decryptionRequests s @ [(rid, v)]\<rparr>))"
  by (simp add: verifySolution_def Let_def)

lemma verifySolution_no_path:
  assumes "encryptedPathX (encryptedSolutions s sid) = [] \<or>
           encryptedPathY (encryptedSolutions s sid) = []"
  shows "verifySolution sid rid s = Inl (Panic 0x32)"
proof -
  from assms have "circuit (encryptedSolutions s sid)
      (encryptedMazes s (EncryptedSolution.mazeId (encryptedSolutions s sid))) = Inl (Panic 0x32)"
    by (intro circuit_panics) auto
  then show ?thesis by (simp add: verifySolution_cases)
qed

lemma unallocated_is_zero:
  "sid = 0 \<or> solutionCount (run ck cs) < sid \<Longrightarrow>
   encryptedSolutions (run ck cs) sid = zeroSolution"
  using wellFormed_run [of ck cs] by (auto simp: wellFormed_def)

lemma run_pending_kept:
  "\<forall>sid. VerifySolution sid r \<notin> set cs' \<Longrightarrow>
   requestToSolutionId (run ck (cs @ cs')) r = requestToSolutionId (run ck cs) r"
proof (induction cs' rule: rev_induct)
  case Nil
  show ?case by simp
next
  case (snoc c cs')
  then have "\<forall>sid. c \<noteq> VerifySolution sid r" by auto
  from exec_pending_other [OF this, of ck "run ck (cs @ cs')"] snoc
  show ?case by (simp add: run_snoc [symmetric])
qed

lemma run_replay_refused:
  assumes d: "decryptVerification ck r c p (run ck cs) = Inr s1"
    and fresh: "\<forall>sid. VerifySolution sid r \<notin> set cs'"
  shows "requestToSolutionId (run ck (cs @ DecryptVerification r c p # cs')) r
           = requestToSolutionId (run ck cs) r"
    and "requestToSolutionId (run ck (cs @ DecryptVerification r c p # cs')) r \<noteq> 0"
    and "decryptVerification ck r c' p' (run ck (cs @ DecryptVerification r c p # cs'))
           = Inl (Require ''Already verified'')"
proof -
  let ?cs1 = "cs @ [DecryptVerification r c p]"
  have s1: "run ck ?cs1 = s1" using d by (simp add: run_snoc exec_simps)
  have nz: "requestToSolutionId (run ck cs) r \<noteq> 0" by (rule decryptVerification_Inr(1) [OF d])
  from decryptVerification_replay(1,2) [OF d] s1
  have m1: "requestToSolutionId (run ck ?cs1) = requestToSolutionId (run ck cs)"
    and rv: "isRevealed (solutionVerifications (run ck ?cs1) (requestToSolutionId (run ck cs) r))"
    by simp_all
  from run_pending_kept [OF fresh, of ck ?cs1] m1
  show eq: "requestToSolutionId (run ck (cs @ DecryptVerification r c p # cs')) r
           = requestToSolutionId (run ck cs) r" by simp
  with nz show "requestToSolutionId (run ck (cs @ DecryptVerification r c p # cs')) r \<noteq> 0"
    by simp
  from run_keeps_revealed [OF rv, of cs'] rv
  have "isRevealed (solutionVerifications (run ck (cs @ DecryptVerification r c p # cs'))
          (requestToSolutionId (run ck cs) r))" by simp
  with eq nz show "decryptVerification ck r c' p' (run ck (cs @ DecryptVerification r c p # cs'))
           = Inl (Require ''Already verified'')"
    by (simp add: decryptVerification_def)
qed

section \<open>The claims\<close>

text \<open>
  The names of the specification correspond to the code as follows: \<open>UnknownRequest\<close> is
  the failed \<^verbatim>\<open>require(solutionId != 0, "Invalid request")\<close>, \<open>AlreadyVerified\<close> is the
  failed \<^verbatim>\<open>require(!verification.isRevealed, "Already verified")\<close>, and \<open>InvalidProof\<close>
  is the revert of \<^verbatim>\<open>FHE.checkSignatures\<close>.
\<close>

text \<open>
  C1. The claim: the step indicator that \<open>verifySolution\<close> conjoins into \<open>isValid\<close> holds
  exactly for the four axis-aligned unit moves, so a diagonal step makes \<open>isValid\<close> false.
  The code computes \<open>x\<^sub>i - x\<^sub>i\<^sub>-\<^sub>1 = 1 \<or> y\<^sub>i - y\<^sub>i\<^sub>-\<^sub>1 = 1\<close> instead. Evaluated: the diagonal
  step from \<open>(0, 0)\<close> to \<open>(1, 1)\<close> is accepted, by \<open>checkPathAdjacency\<close> and by the whole
  run, whose decryption request carries \<open>true\<close>; the unit move from \<open>(1, 0)\<close> back to
  \<open>(0, 0)\<close> is refused.
\<close>

theorem diagonal_step_accepted:
  "checkPathAdjacency 1 1 0 0 = True
   \<and> decryptionRequests (run demoOracle diagonalSession) = [(7, True)]
   \<and> checkPathAdjacency 0 0 1 0 = False
   \<and> decryptionRequests (run demoOracle backwardSession) = [(7, False)]"
  by (simp add: eval_simps)

text \<open>
  C2. The claim: the open-cell check reads the cell addressed by the path coordinate, so a
  path through a wall is invalid. The code reads \<open>encryptedGrid[0][0]\<close> at every step.
  Evaluated: in \<open>wallSession\<close> the path \<open>(0,0), (1,0), (2,0), (2,1), (2,2)\<close> passes through
  the wall at \<open>(1, 0)\<close>, the decryption request carries \<open>true\<close>, and the resolved result
  is valid.
\<close>

theorem wall_crossing_accepted:
  "encryptedGrid (encryptedMazes (run demoOracle wallSession) 1) ! 1 ! 0 = 1
   \<and> encryptedGrid (encryptedMazes (run demoOracle wallSession) 1) ! 0 ! 1 = 1
   \<and> decryptionRequests (run demoOracle wallSession) = [(7, True)]
   \<and> getVerificationResult 1 (run demoOracle wallSession) = (True, True)"
  by (simp add: eval_simps)

text \<open>
  C3. The verification record is unrevealed at submission. A resolve for a pending request
  of an unrevealed solution, with arguments that the signature check accepts and cleartexts
  that decode to \<open>b\<close>, succeeds and reveals \<open>b\<close>; a resolve that succeeded fails with
  \<open>Already verified\<close> when it is called again with the same arguments, and changes
  nothing. In every reachable state a revealed record is the same after any further
  sequence of calls, so \<open>isRevealed\<close> never returns to false and \<open>isValid\<close> is written
  once.
\<close>

theorem reveal_is_write_once:
  "(submitEncryptedSolution m px py s = Inr s1 \<longrightarrow>
      getVerificationResult (solutionCount s1) s1 = (False, False))
   \<and> (requestToSolutionId s r \<noteq> 0
      \<and> \<not> isRevealed (solutionVerifications s (requestToSolutionId s r))
      \<and> ck r c p \<and> abi_decode_bool c = Inr b \<longrightarrow>
      (\<exists>s2. decryptVerification ck r c p s = Inr s2
         \<and> getVerificationResult (requestToSolutionId s r) s2 = (b, True)))
   \<and> (decryptVerification ck r c p s = Inr s2 \<longrightarrow>
      isRevealed (solutionVerifications s2 (requestToSolutionId s r))
      \<and> decryptVerification ck r c p s2 = Inl (Require ''Already verified'')
      \<and> transact (decryptVerification ck r c p) s2 = (Some (Require ''Already verified''), s2))
   \<and> (isRevealed (solutionVerifications (run ck cs) i) \<longrightarrow>
      solutionVerifications (run ck (cs @ cs')) i = solutionVerifications (run ck cs) i)"
proof (intro conjI impI)
  assume "submitEncryptedSolution m px py s = Inr s1"
  then show "getVerificationResult (solutionCount s1) s1 = (False, False)"
    by (auto simp: submitEncryptedSolution_def getVerificationResult_def Let_def split: if_splits)
next
  assume "requestToSolutionId s r \<noteq> 0
      \<and> \<not> isRevealed (solutionVerifications s (requestToSolutionId s r))
      \<and> ck r c p \<and> abi_decode_bool c = Inr b"
  then show "\<exists>s2. decryptVerification ck r c p s = Inr s2
         \<and> getVerificationResult (requestToSolutionId s r) s2 = (b, True)"
    by (simp add: decryptVerification_def getVerificationResult_def Let_def)
next
  assume a: "decryptVerification ck r c p s = Inr s2"
  from decryptVerification_replay [OF a]
  show "isRevealed (solutionVerifications s2 (requestToSolutionId s r))"
    and r: "decryptVerification ck r c p s2 = Inl (Require ''Already verified'')"
    by auto
  then show "transact (decryptVerification ck r c p) s2 = (Some (Require ''Already verified''), s2)"
    by (simp add: transact_def)
next
  assume "isRevealed (solutionVerifications (run ck cs) i)"
  then show "solutionVerifications (run ck (cs @ cs')) i = solutionVerifications (run ck cs) i"
    by (rule run_keeps_revealed)
qed

theorem reveal_is_write_once_witness:
  "submitEncryptedSolution 1 [0,1,2,2,2] [0,0,0,1,2] (run demoOracle (take 1 session))
     = Inr (run demoOracle (take 2 session))
   \<and> getVerificationResult 1 (run demoOracle (take 2 session)) = (False, False)
   \<and> requestToSolutionId (run demoOracle session) 7 = 1
   \<and> \<not> isRevealed (solutionVerifications (run demoOracle session) 1)
   \<and> demoOracle 7 cleartextTrue [1]
   \<and> abi_decode_bool cleartextTrue = Inr True
   \<and> decryptVerification demoOracle 7 cleartextTrue [1] (run demoOracle session)
     = Inr (run demoOracle revealedSession)
   \<and> getVerificationResult 1 (run demoOracle revealedSession) = (True, True)
   \<and> decryptVerification demoOracle 7 cleartextTrue [1] (run demoOracle revealedSession)
     = Inl (Require ''Already verified'')
   \<and> solutionVerifications
       (run demoOracle (revealedSession @
          [DecryptVerification 7 (replicate 32 0) [1], VerifySolution 1 8,
           DecryptVerification 8 (replicate 32 0) [1],
           SubmitEncryptedSolution 1 [0] [0]])) 1
     = \<lparr>isValid = True, isRevealed = True\<rparr>"
proof -
  have h1: "submitEncryptedSolution 1 [0,1,2,2,2] [0,0,0,1,2] (run demoOracle (take 1 session))
     = Inr (run demoOracle (take 2 session))"
    by (simp add: eval_simps)
  have k: "solutionCount (run demoOracle (take 2 session)) = 1"
    by (simp add: eval_simps)
  have g: "requestToSolutionId (run demoOracle session) 7 = 1"
    "\<not> isRevealed (solutionVerifications (run demoOracle session) 1)"
    "demoOracle 7 cleartextTrue [1]"
    "abi_decode_bool cleartextTrue = Inr True"
    by (simp_all add: eval_simps)
  have h2: "decryptVerification demoOracle 7 cleartextTrue [1] (run demoOracle session)
     = Inr (run demoOracle revealedSession)"
    by (simp add: eval_simps)
  have v: "solutionVerifications (run demoOracle revealedSession) 1
     = \<lparr>isValid = True, isRevealed = True\<rparr>"
    by (simp add: eval_simps)
  note t = reveal_is_write_once [where m = 1 and px = "[0,1,2,2,2]" and py = "[0,0,0,1,2]"
      and s = "run demoOracle (take 1 session)" and ?s1.0 = "run demoOracle (take 2 session)"]
  note u = reveal_is_write_once [where s = "run demoOracle session" and ck = demoOracle
      and r = 7 and c = cleartextTrue and p = "[1]" and b = True
      and ?s2.0 = "run demoOracle revealedSession" and cs = revealedSession and i = 1]
  from t h1 k have "getVerificationResult 1 (run demoOracle (take 2 session)) = (False, False)"
    by simp
  moreover from u g h2
  have "getVerificationResult 1 (run demoOracle revealedSession) = (True, True)"
    by auto
  moreover from u h2
  have "decryptVerification demoOracle 7 cleartextTrue [1] (run demoOracle revealedSession)
     = Inl (Require ''Already verified'')" by blast
  moreover from u v have "solutionVerifications (run demoOracle (revealedSession @ cs')) 1
     = \<lparr>isValid = True, isRevealed = True\<rparr>" for cs' by simp
  ultimately show ?thesis using h1 h2 g by blast
qed

text \<open>
  C4. When \<^verbatim>\<open>FHE.checkSignatures\<close> rejects the arguments, \<open>decryptVerification\<close> fails
  and the state after the call is the state before it. When moreover the request is
  pending and its solution is unrevealed (the two guards that precede the signature check
  pass), the failure is the revert of the signature check.
\<close>

theorem bad_proof_rejected:
  assumes "\<not> ck r c p"
  shows "(\<exists>e. transact (decryptVerification ck r c p) s = (Some e, s))
    \<and> (requestToSolutionId s r \<noteq> 0 \<and>
       \<not> isRevealed (solutionVerifications s (requestToSolutionId s r)) \<longrightarrow>
       decryptVerification ck r c p s = Inl CheckSignaturesReverted
       \<and> transact (decryptVerification ck r c p) s = (Some CheckSignaturesReverted, s)
       \<and> exec ck s (DecryptVerification r c p) = s)"
  using assms by (simp add: transact_def decryptVerification_def exec_def Let_def)

theorem bad_proof_rejected_witness:
  "\<not> demoOracle 7 cleartextTrue [2]
   \<and> requestToSolutionId (run demoOracle session) 7 = 1
   \<and> getVerificationResult 1 (run demoOracle session) = (False, False)
   \<and> decryptVerification demoOracle 7 cleartextTrue [2] (run demoOracle session)
       = Inl CheckSignaturesReverted
   \<and> exec demoOracle (run demoOracle session) (DecryptVerification 7 cleartextTrue [2])
       = run demoOracle session"
proof -
  have h: "\<not> demoOracle 7 cleartextTrue [2]" by (simp add: demoOracle_def)
  have r: "requestToSolutionId (run demoOracle session) 7 = 1" by (simp add: eval_simps)
  have v: "getVerificationResult 1 (run demoOracle session) = (False, False)"
    by (simp add: eval_simps)
  then have u: "\<not> isRevealed (solutionVerifications (run demoOracle session) 1)"
    by (simp add: getVerificationResult_def Let_def)
  from bad_proof_rejected [of demoOracle 7 cleartextTrue "[2]" "run demoOracle session"] r u h v
  show ?thesis by simp
qed

text \<open>
  C5. The claim: \<open>generateEncryptedMaze\<close> fails on an empty or ragged grid and then stores
  nothing. The code has no check of the grid: on the deployed contract the empty grid and
  the ragged grid \<open>[[0], [0, 1]]\<close> are both stored under identifier 1, and the event is
  emitted.
\<close>

theorem generateEncryptedMaze_accepts_any_grid:
  "fst (transact (generateEncryptedMaze [] 0 0 2 2 1000) deployed) = None
   \<and> mazeCount (snd (transact (generateEncryptedMaze [] 0 0 2 2 1000) deployed)) = 1
   \<and> encryptedGrid (encryptedMazes
        (snd (transact (generateEncryptedMaze [] 0 0 2 2 1000) deployed)) 1) = []
   \<and> events (snd (transact (generateEncryptedMaze [] 0 0 2 2 1000) deployed))
        = [MazeGenerated 1 1000]
   \<and> fst (transact (generateEncryptedMaze [[0], [0, 1]] 0 0 2 2 1000) deployed) = None
   \<and> encryptedGrid (encryptedMazes
        (snd (transact (generateEncryptedMaze [[0], [0, 1]] 0 0 2 2 1000) deployed)) 1)
        = [[0], [0, 1]]"
  by (simp add: eval_simps)

text \<open>
  C5, as amended. For every grid \<open>generateEncryptedMaze\<close> succeeds unless \<open>mazeCount\<close> is
  the largest \<^verbatim>\<open>uint256\<close>: it takes the identifier \<open>mazeCount + 1\<close>, stores the grid as
  given and emits \<open>MazeGenerated\<close>. Its only failure is the overflow panic of the counter,
  and then nothing is stored and nothing is emitted.
\<close>

theorem generateEncryptedMaze_unchecked:
  "(mazeCount s \<noteq> - 1 \<longrightarrow>
      (\<exists>s'. generateEncryptedMaze grid sx sy ex ey ts s = Inr s'
         \<and> mazeCount s' = mazeCount s + 1
         \<and> encryptedMazes s' = (encryptedMazes s)(mazeCount s + 1 :=
              \<lparr>EncryptedMaze.mazeId = mazeCount s + 1, encryptedGrid = grid,
               encryptedStartX = sx, encryptedStartY = sy,
               encryptedEndX = ex, encryptedEndY = ey, timestamp = ts\<rparr>)
         \<and> events s' = events s @ [MazeGenerated (mazeCount s + 1) ts]))
   \<and> (mazeCount s = - 1 \<longrightarrow>
      transact (generateEncryptedMaze grid sx sy ex ey ts) s = (Some (Panic 0x11), s))"
  by (simp add: generateEncryptedMaze_def transact_def Let_def)

theorem generateEncryptedMaze_unchecked_witness:
  "mazeCount deployed \<noteq> - 1
   \<and> (\<exists>s'. generateEncryptedMaze [] 0 0 2 2 1000 deployed = Inr s'
         \<and> mazeCount s' = 1
         \<and> encryptedGrid (encryptedMazes s' 1) = []
         \<and> events s' = [MazeGenerated 1 1000])
   \<and> mazeCount (deployed\<lparr>mazeCount := - 1\<rparr>) = - 1
   \<and> transact (generateEncryptedMaze [] 0 0 2 2 1000) (deployed\<lparr>mazeCount := - 1\<rparr>)
       = (Some (Panic 0x11), deployed\<lparr>mazeCount := - 1\<rparr>)"
proof -
  have a: "mazeCount deployed \<noteq> - 1" by (simp add: deployed_def)
  have b: "mazeCount (deployed\<lparr>mazeCount := - 1\<rparr>) = - 1" by simp
  have z: "mazeCount deployed = 0" "events deployed = []" by (simp_all add: deployed_def)
  from generateEncryptedMaze_unchecked [of deployed "[]" 0 0 2 2 1000] a z
  have "\<exists>s'. generateEncryptedMaze [] 0 0 2 2 1000 deployed = Inr s'
         \<and> mazeCount s' = 1
         \<and> encryptedGrid (encryptedMazes s' 1) = []
         \<and> events s' = [MazeGenerated 1 1000]"
    by auto
  moreover from generateEncryptedMaze_unchecked [of "deployed\<lparr>mazeCount := - 1\<rparr>" "[]" 0 0 2 2 1000] b
  have "transact (generateEncryptedMaze [] 0 0 2 2 1000) (deployed\<lparr>mazeCount := - 1\<rparr>)
       = (Some (Panic 0x11), deployed\<lparr>mazeCount := - 1\<rparr>)" by blast
  ultimately show ?thesis using a b by blast
qed

text \<open>
  C6. The claim: \<open>submitEncryptedSolution\<close> fails for a maze identifier that was never
  assigned and for an empty path. The code checks neither: on the deployed contract, which
  has no maze, the empty path for maze 9 is stored as solution 1.
\<close>

theorem submitEncryptedSolution_accepts_unknown_maze_and_empty_path:
  "mazeCount deployed = 0
   \<and> fst (transact (submitEncryptedSolution 9 [] []) deployed) = None
   \<and> solutionCount (snd (transact (submitEncryptedSolution 9 [] []) deployed)) = 1
   \<and> encryptedSolutions (snd (transact (submitEncryptedSolution 9 [] []) deployed)) 1
       = \<lparr>solutionId = 1, encryptedPathX = [], encryptedPathY = [],
          EncryptedSolution.mazeId = 9\<rparr>
   \<and> events (snd (transact (submitEncryptedSolution 9 [] []) deployed))
       = [SolutionSubmitted 1 9]"
  by (simp add: eval_simps)

text \<open>
  C6, as amended. For every maze identifier and every pair of path arrays
  \<open>submitEncryptedSolution\<close> succeeds unless \<open>solutionCount\<close> is the largest \<^verbatim>\<open>uint256\<close>:
  it takes the identifier \<open>solutionCount + 1\<close>, stores the solution with an unrevealed
  verification record and emits \<open>SolutionSubmitted\<close>. Its only failure is the overflow
  panic of the counter, and then nothing is stored.
\<close>

theorem submitEncryptedSolution_unchecked:
  "(solutionCount s \<noteq> - 1 \<longrightarrow>
      (\<exists>s'. submitEncryptedSolution m px py s = Inr s'
         \<and> solutionCount s' = solutionCount s + 1
         \<and> encryptedSolutions s' = (encryptedSolutions s)(solutionCount s + 1 :=
              \<lparr>solutionId = solutionCount s + 1, encryptedPathX = px, encryptedPathY = py,
               EncryptedSolution.mazeId = m\<rparr>)
         \<and> solutionVerifications s' (solutionCount s + 1) = \<lparr>isValid = False, isRevealed = False\<rparr>
         \<and> events s' = events s @ [SolutionSubmitted (solutionCount s + 1) m]))
   \<and> (solutionCount s = - 1 \<longrightarrow>
      transact (submitEncryptedSolution m px py) s = (Some (Panic 0x11), s))"
  by (simp add: submitEncryptedSolution_def transact_def Let_def)

theorem submitEncryptedSolution_unchecked_witness:
  "solutionCount deployed \<noteq> - 1
   \<and> (\<exists>s'. submitEncryptedSolution 9 [] [] deployed = Inr s'
         \<and> solutionCount s' = 1
         \<and> encryptedPathX (encryptedSolutions s' 1) = []
         \<and> EncryptedSolution.mazeId (encryptedSolutions s' 1) = 9
         \<and> events s' = [SolutionSubmitted 1 9])
   \<and> solutionCount (deployed\<lparr>solutionCount := - 1\<rparr>) = - 1
   \<and> transact (submitEncryptedSolution 9 [] []) (deployed\<lparr>solutionCount := - 1\<rparr>)
       = (Some (Panic 0x11), deployed\<lparr>solutionCount := - 1\<rparr>)"
proof -
  have a: "solutionCount deployed \<noteq> - 1" by (simp add: deployed_def)
  have b: "solutionCount (deployed\<lparr>solutionCount := - 1\<rparr>) = - 1" by simp
  have z: "solutionCount deployed = 0" "events deployed = []" by (simp_all add: deployed_def)
  from submitEncryptedSolution_unchecked [of deployed 9 "[]" "[]"] a z
  have "\<exists>s'. submitEncryptedSolution 9 [] [] deployed = Inr s'
         \<and> solutionCount s' = 1
         \<and> encryptedPathX (encryptedSolutions s' 1) = []
         \<and> EncryptedSolution.mazeId (encryptedSolutions s' 1) = 9
         \<and> events s' = [SolutionSubmitted 1 9]"
    by auto
  moreover from submitEncryptedSolution_unchecked [of "deployed\<lparr>solutionCount := - 1\<rparr>" 9 "[]" "[]"] b
  have "transact (submitEncryptedSolution 9 [] []) (deployed\<lparr>solutionCount := - 1\<rparr>)
       = (Some (Panic 0x11), deployed\<lparr>solutionCount := - 1\<rparr>)" by blast
  ultimately show ?thesis using a b by blast
qed

text \<open>
  C7. The claim: \<open>verifySolution\<close> fails with \<open>AlreadyVerified\<close> for a revealed solution
  and with \<open>UnknownMaze\<close> when the maze does not exist. The code has neither guard: for the
  revealed solution 1 of \<open>revealedSession\<close> a second decryption request is issued and
  recorded, and in \<open>orphanSession\<close>, where no maze exists, the one-point path \<open>(0, 0)\<close> for
  maze 9 is compared with the zero maze and a request carrying \<open>true\<close> is issued.
\<close>

theorem verifySolution_accepts_revealed_and_unknown_maze:
  "isRevealed (solutionVerifications (run demoOracle revealedSession) 1)
   \<and> fst (transact (verifySolution 1 8) (run demoOracle revealedSession)) = None
   \<and> requestToSolutionId
        (snd (transact (verifySolution 1 8) (run demoOracle revealedSession))) 8 = 1
   \<and> decryptionRequests
        (snd (transact (verifySolution 1 8) (run demoOracle revealedSession)))
        = [(7, True), (8, True)]
   \<and> mazeCount (run demoOracle orphanSession) = 0
   \<and> EncryptedSolution.mazeId (encryptedSolutions (run demoOracle orphanSession) 1) = 9
   \<and> fst (transact (verifySolution 1 7) (run demoOracle orphanSession)) = None
   \<and> decryptionRequests (snd (transact (verifySolution 1 7) (run demoOracle orphanSession)))
        = [(7, True)]"
  by (simp add: eval_simps)

text \<open>
  C7, as amended. \<open>verifySolution\<close> reads neither \<open>isRevealed\<close> nor whether the maze
  exists. It succeeds exactly when the stored X array is non-empty, the Y array is at least
  as long, and, for a path of two or more points, the cell \<open>encryptedGrid[0][0]\<close> of the
  referenced maze exists; it then issues one decryption request and records
  \<open>requestToSolutionId[reqId] = solutionId\<close>. In every other case it fails with the
  out-of-bounds panic.
\<close>

theorem verifySolution_unguarded:
  "(let solution = encryptedSolutions s sid;
        maze = encryptedMazes s (EncryptedSolution.mazeId solution);
        n = length (encryptedPathX solution)
    in if 0 < n \<and> n \<le> length (encryptedPathY solution)
          \<and> (2 \<le> n \<longrightarrow> encryptedGrid maze \<noteq> [] \<and> hd (encryptedGrid maze) \<noteq> [])
       then \<exists>v. verifySolution sid rid s =
              Inr (s\<lparr>requestToSolutionId := (requestToSolutionId s)(rid := sid),
                     decryptionRequests := decryptionRequests s @ [(rid, v)]\<rparr>)
       else verifySolution sid rid s = Inl (Panic 0x32))"
proof -
  define solution where "solution = encryptedSolutions s sid"
  define maze where "maze = encryptedMazes s (EncryptedSolution.mazeId solution)"
  let ?ok = "0 < length (encryptedPathX solution)
      \<and> length (encryptedPathX solution) \<le> length (encryptedPathY solution)
      \<and> (2 \<le> length (encryptedPathX solution) \<longrightarrow>
           encryptedGrid maze \<noteq> [] \<and> hd (encryptedGrid maze) \<noteq> [])"
  have v: "verifySolution sid rid s =
     (case circuit solution maze of
        Inl e \<Rightarrow> Inl e
      | Inr v \<Rightarrow> Inr (s\<lparr>requestToSolutionId := (requestToSolutionId s)(rid := sid),
                         decryptionRequests := decryptionRequests s @ [(rid, v)]\<rparr>))"
    by (simp add: verifySolution_cases solution_def maze_def)
  have "\<exists>v. verifySolution sid rid s =
              Inr (s\<lparr>requestToSolutionId := (requestToSolutionId s)(rid := sid),
                     decryptionRequests := decryptionRequests s @ [(rid, v)]\<rparr>)" if ?ok
  proof -
    from that circuit_defined [of solution maze] obtain b where "circuit solution maze = Inr b"
      by blast
    then have "verifySolution sid rid s =
              Inr (s\<lparr>requestToSolutionId := (requestToSolutionId s)(rid := sid),
                     decryptionRequests := decryptionRequests s @ [(rid, b)]\<rparr>)"
      by (simp add: v)
    then show ?thesis by (rule exI)
  qed
  moreover have "verifySolution sid rid s = Inl (Panic 0x32)" if "\<not> ?ok"
    using circuit_panics [OF that] by (simp add: v)
  ultimately show ?thesis
    unfolding Let_def solution_def [symmetric] maze_def [symmetric] by presburger
qed

theorem verifySolution_unguarded_witness:
  "isRevealed (solutionVerifications (run demoOracle revealedSession) 1)
   \<and> (\<exists>v. verifySolution 1 8 (run demoOracle revealedSession) =
        Inr ((run demoOracle revealedSession)
          \<lparr>requestToSolutionId :=
             (requestToSolutionId (run demoOracle revealedSession))(8 := 1),
           decryptionRequests :=
             decryptionRequests (run demoOracle revealedSession) @ [(8, v)]\<rparr>))
   \<and> verifySolution 2 8 (run demoOracle revealedSession) = Inl (Panic 0x32)"
proof -
  have a: "isRevealed (solutionVerifications (run demoOracle revealedSession) 1)"
    by (simp add: eval_simps)
  have s1: "encryptedSolutions (run demoOracle revealedSession) 1 =
      \<lparr>solutionId = 1, encryptedPathX = [0,1,2,2,2], encryptedPathY = [0,0,0,1,2],
       EncryptedSolution.mazeId = 1\<rparr>"
    by (simp add: eval_simps)
  have m1: "encryptedGrid (encryptedMazes (run demoOracle revealedSession) 1) = openGrid"
    by (simp add: eval_simps)
  have s2: "encryptedSolutions (run demoOracle revealedSession) 2 = zeroSolution"
    by (simp add: eval_simps)
  from verifySolution_unguarded [of "run demoOracle revealedSession" 1 8] s1 m1
  have "\<exists>v. verifySolution 1 8 (run demoOracle revealedSession) =
        Inr ((run demoOracle revealedSession)
          \<lparr>requestToSolutionId :=
             (requestToSolutionId (run demoOracle revealedSession))(8 := 1),
           decryptionRequests :=
             decryptionRequests (run demoOracle revealedSession) @ [(8, v)]\<rparr>)"
    by (simp add: openGrid_def)
  moreover from verifySolution_unguarded [of "run demoOracle revealedSession" 2 8] s2
  have "verifySolution 2 8 (run demoOracle revealedSession) = Inl (Panic 0x32)"
    by (simp add: zeroSolution_def)
  ultimately show ?thesis using a by blast
qed

text \<open>
  C8. \<open>decryptVerification\<close> fails with \<open>Invalid request\<close> whenever the request maps to 0,
  which is the case in every reachable state for a request identifier that no
  \<open>verifySolution\<close> call has used. The sentinel is sound: \<open>solutionCount\<close> starts at 0, a
  submission takes the next identifier, which is never 0, and in a reachable state a
  successful \<open>verifySolution\<close> records an allocated identifier different from 0.
\<close>

theorem unknown_request_rejected:
  "(requestToSolutionId s r = 0 \<longrightarrow>
      decryptVerification ck r c p s = Inl (Require ''Invalid request''))
   \<and> ((\<forall>sid. VerifySolution sid r \<notin> set cs) \<longrightarrow>
      decryptVerification ck r c p (run ck cs) = Inl (Require ''Invalid request''))
   \<and> solutionCount deployed = 0
   \<and> (submitEncryptedSolution m px py s = Inr s1 \<longrightarrow>
      solutionCount s1 = solutionCount s + 1 \<and> solutionCount s1 \<noteq> 0)
   \<and> (verifySolution sid r (run ck cs) = Inr s2 \<longrightarrow>
      sid \<noteq> 0 \<and> sid \<le> solutionCount (run ck cs) \<and> requestToSolutionId s2 r = sid)"
proof (intro conjI impI)
  show "decryptVerification ck r c p s = Inl (Require ''Invalid request'')"
    if "requestToSolutionId s r = 0"
    using that by (simp add: decryptVerification_def)
  show "decryptVerification ck r c p (run ck cs) = Inl (Require ''Invalid request'')"
    if "\<forall>sid. VerifySolution sid r \<notin> set cs"
    using run_never_requested [OF that, of ck] by (simp add: decryptVerification_def)
  show "solutionCount deployed = 0" by (simp add: deployed_def)
next
  assume a: "submitEncryptedSolution m px py s = Inr s1"
  then have c: "solutionCount s \<noteq> - 1"
    by (auto simp: submitEncryptedSolution_def split: if_splits)
  with a show "solutionCount s1 = solutionCount s + 1"
    by (auto simp: submitEncryptedSolution_def Let_def)
  with word_inc_facts(1) [OF c] show "solutionCount s1 \<noteq> 0" by simp
next
  assume a: "verifySolution sid r (run ck cs) = Inr s2"
  from verifySolution_allocated [OF wellFormed_run a]
  show "sid \<noteq> 0" and "sid \<le> solutionCount (run ck cs)" by auto
  from verifySolution_Inr [OF a] show "requestToSolutionId s2 r = sid" by auto
qed

theorem unknown_request_rejected_witness:
  "requestToSolutionId (run demoOracle session) 8 = 0
   \<and> (\<forall>sid. VerifySolution sid 8 \<notin> set session)
   \<and> decryptVerification demoOracle 8 cleartextTrue [1] (run demoOracle session)
       = Inl (Require ''Invalid request'')
   \<and> submitEncryptedSolution 1 [0,1,2,2,2] [0,0,0,1,2] (run demoOracle (take 1 session))
       = Inr (run demoOracle (take 2 session))
   \<and> solutionCount (run demoOracle (take 2 session)) = 1
   \<and> verifySolution 1 7 (run demoOracle (take 2 session)) = Inr (run demoOracle session)
   \<and> requestToSolutionId (run demoOracle session) 7 = 1"
proof -
  have a: "requestToSolutionId (run demoOracle session) 8 = 0" by (simp add: eval_simps)
  have b: "\<forall>sid. VerifySolution sid 8 \<notin> set session" by (simp add: session_def)
  have c: "submitEncryptedSolution 1 [0,1,2,2,2] [0,0,0,1,2] (run demoOracle (take 1 session))
       = Inr (run demoOracle (take 2 session))" by (simp add: eval_simps)
  have d: "verifySolution 1 7 (run demoOracle (take 2 session)) = Inr (run demoOracle session)"
    by (simp add: eval_simps)
  have e: "solutionCount (run demoOracle (take 1 session)) = 0" by (simp add: eval_simps)
  note t = unknown_request_rejected [of "run demoOracle (take 1 session)" 8 demoOracle
      cleartextTrue "[1]" session 1 "[0,1,2,2,2]" "[0,0,0,1,2]" "run demoOracle (take 2 session)"]
  note u = unknown_request_rejected [of _ 7 demoOracle _ _ "take 2 session" _ _ _ _ 1
      "run demoOracle session"]
  from t b have "decryptVerification demoOracle 8 cleartextTrue [1] (run demoOracle session)
       = Inl (Require ''Invalid request'')" by blast
  moreover from t c e have "solutionCount (run demoOracle (take 2 session)) = 1" by simp
  moreover from u d have "requestToSolutionId (run demoOracle session) 7 = 1" by blast
  ultimately show ?thesis using a b c d by blast
qed

text \<open>
  C9. The claim: a successful resolve removes the pending entry of its request. The code
  never deletes from \<open>requestToSolutionId\<close>: after the successful resolve of request 7 in
  \<open>session\<close>, request 7 still maps to solution 1.
\<close>

theorem resolve_leaves_pending_entry:
  "fst (transact (decryptVerification demoOracle 7 cleartextTrue [1]) (run demoOracle session))
     = None
   \<and> requestToSolutionId
       (snd (transact (decryptVerification demoOracle 7 cleartextTrue [1])
              (run demoOracle session))) 7 = 1"
  by (simp add: eval_simps)

text \<open>
  C9, as amended. A successful resolve leaves \<open>requestToSolutionId\<close> as it was, so the
  request still maps to its solution, and a replay in the resulting state, with any
  cleartexts and proof, is refused by the \<open>isRevealed\<close> guard with \<open>Already verified\<close>.
  The same holds after every further sequence of calls from a reachable state, as long as
  none of them is a \<open>verifySolution\<close> to which the oracle gives the same request
  identifier again: the request keeps mapping to its solution and every resolve of it is
  refused with \<open>Already verified\<close>.
\<close>

theorem resolve_keeps_request_mapping:
  "(decryptVerification ck r c p s = Inr s' \<longrightarrow>
      requestToSolutionId s' = requestToSolutionId s
      \<and> requestToSolutionId s' r \<noteq> 0
      \<and> decryptVerification ck r c' p' s' = Inl (Require ''Already verified''))
   \<and> (decryptVerification ck r c p (run ck cs) = Inr s1
      \<and> (\<forall>sid. VerifySolution sid r \<notin> set cs') \<longrightarrow>
      requestToSolutionId (run ck (cs @ DecryptVerification r c p # cs')) r
        = requestToSolutionId (run ck cs) r
      \<and> requestToSolutionId (run ck (cs @ DecryptVerification r c p # cs')) r \<noteq> 0
      \<and> decryptVerification ck r c' p' (run ck (cs @ DecryptVerification r c p # cs'))
        = Inl (Require ''Already verified''))"
proof (intro conjI impI)
  assume a: "decryptVerification ck r c p s = Inr s'"
  from decryptVerification_replay [OF a] decryptVerification_Inr(1) [OF a]
  show "requestToSolutionId s' = requestToSolutionId s"
    and "requestToSolutionId s' r \<noteq> 0"
    and "decryptVerification ck r c' p' s' = Inl (Require ''Already verified'')"
    by simp_all
next
  assume a: "decryptVerification ck r c p (run ck cs) = Inr s1
      \<and> (\<forall>sid. VerifySolution sid r \<notin> set cs')"
  then have d: "decryptVerification ck r c p (run ck cs) = Inr s1"
    and f: "\<forall>sid. VerifySolution sid r \<notin> set cs'" by simp_all
  from run_replay_refused [OF d f]
  show "requestToSolutionId (run ck (cs @ DecryptVerification r c p # cs')) r
        = requestToSolutionId (run ck cs) r"
    and "requestToSolutionId (run ck (cs @ DecryptVerification r c p # cs')) r \<noteq> 0"
    and "decryptVerification ck r c' p' (run ck (cs @ DecryptVerification r c p # cs'))
        = Inl (Require ''Already verified'')"
    by simp_all
qed

theorem resolve_keeps_request_mapping_witness:
  "decryptVerification demoOracle 7 cleartextTrue [1] (run demoOracle session)
     = Inr (run demoOracle revealedSession)
   \<and> requestToSolutionId (run demoOracle revealedSession)
       = requestToSolutionId (run demoOracle session)
   \<and> requestToSolutionId (run demoOracle revealedSession) 7 \<noteq> 0
   \<and> decryptVerification demoOracle 7 (replicate 32 0) [1] (run demoOracle revealedSession)
       = Inl (Require ''Already verified'')
   \<and> (\<forall>sid. VerifySolution sid 7 \<notin> set laterCalls)
   \<and> requestToSolutionId
       (run demoOracle (session @ DecryptVerification 7 cleartextTrue [1] # laterCalls)) 7 = 1
   \<and> decryptVerification demoOracle 7 (replicate 32 0) [1]
       (run demoOracle (session @ DecryptVerification 7 cleartextTrue [1] # laterCalls))
       = Inl (Require ''Already verified'')"
proof -
  have a: "decryptVerification demoOracle 7 cleartextTrue [1] (run demoOracle session)
     = Inr (run demoOracle revealedSession)" by (simp add: eval_simps)
  have f: "\<forall>sid. VerifySolution sid 7 \<notin> set laterCalls" by (simp add: laterCalls_def)
  have r: "requestToSolutionId (run demoOracle session) 7 = 1" by (simp add: eval_simps)
  note t = resolve_keeps_request_mapping [where ck = demoOracle and r = 7
      and c = cleartextTrue and p = "[1]" and s = "run demoOracle session"
      and s' = "run demoOracle revealedSession" and cs = session
      and ?s1.0 = "run demoOracle revealedSession" and cs' = laterCalls
      and c' = "replicate 32 0" and p' = "[1]"]
  from t a have "requestToSolutionId (run demoOracle revealedSession)
       = requestToSolutionId (run demoOracle session)"
    and "requestToSolutionId (run demoOracle revealedSession) 7 \<noteq> 0"
    and "decryptVerification demoOracle 7 (replicate 32 0) [1] (run demoOracle revealedSession)
       = Inl (Require ''Already verified'')" by blast+
  moreover from t a f r have "requestToSolutionId
       (run demoOracle (session @ DecryptVerification 7 cleartextTrue [1] # laterCalls)) 7 = 1"
    and "decryptVerification demoOracle 7 (replicate 32 0) [1]
       (run demoOracle (session @ DecryptVerification 7 cleartextTrue [1] # laterCalls))
       = Inl (Require ''Already verified'')" by simp_all
  ultimately show ?thesis using a f by blast
qed

text \<open>
  C10. When the stored X or Y array of the solution is empty, \<open>verifySolution\<close> fails with
  the out-of-bounds panic \<open>0x32\<close> and the state, with its pending requests and the
  decryption requests issued, is unchanged. In every reachable state this is the case for
  the identifier 0 and for every identifier above \<open>solutionCount\<close>, those never allocated.
\<close>

theorem verifySolution_without_path_panics:
  "(encryptedPathX (encryptedSolutions s sid) = [] \<or>
    encryptedPathY (encryptedSolutions s sid) = [] \<longrightarrow>
      verifySolution sid rid s = Inl (Panic 0x32)
      \<and> transact (verifySolution sid rid) s = (Some (Panic 0x32), s))
   \<and> (sid = 0 \<or> solutionCount (run ck cs) < sid \<longrightarrow>
      verifySolution sid rid (run ck cs) = Inl (Panic 0x32)
      \<and> run ck (cs @ [VerifySolution sid rid]) = run ck cs)"
proof (intro conjI impI)
  assume a: "encryptedPathX (encryptedSolutions s sid) = [] \<or>
    encryptedPathY (encryptedSolutions s sid) = []"
  from verifySolution_no_path [OF a] show "verifySolution sid rid s = Inl (Panic 0x32)" .
  then show "transact (verifySolution sid rid) s = (Some (Panic 0x32), s)"
    by (simp add: transact_def)
next
  assume a: "sid = 0 \<or> solutionCount (run ck cs) < sid"
  from unallocated_is_zero [OF a]
  have "encryptedPathX (encryptedSolutions (run ck cs) sid) = []"
    by (simp add: zeroSolution_def)
  then show v: "verifySolution sid rid (run ck cs) = Inl (Panic 0x32)"
    by (simp add: verifySolution_no_path)
  then show "run ck (cs @ [VerifySolution sid rid]) = run ck cs"
    by (simp add: run_snoc exec_simps)
qed

theorem verifySolution_without_path_panics_witness:
  "encryptedPathX (encryptedSolutions (run demoOracle [SubmitEncryptedSolution 1 [] []]) 1) = []
   \<and> transact (verifySolution 1 7) (run demoOracle [SubmitEncryptedSolution 1 [] []])
       = (Some (Panic 0x32), run demoOracle [SubmitEncryptedSolution 1 [] []])
   \<and> solutionCount (run demoOracle session) < 2
   \<and> verifySolution 2 8 (run demoOracle session) = Inl (Panic 0x32)
   \<and> verifySolution 0 8 (run demoOracle session) = Inl (Panic 0x32)
   \<and> run demoOracle (session @ [VerifySolution 2 8]) = run demoOracle session"
proof -
  have a: "encryptedPathX (encryptedSolutions
      (run demoOracle [SubmitEncryptedSolution 1 [] []]) 1) = []"
    by (simp add: eval_simps)
  have b: "solutionCount (run demoOracle session) < 2" by (simp add: eval_simps)
  note t = verifySolution_without_path_panics [of _ 2 8 demoOracle session]
  note t7 = verifySolution_without_path_panics
      [of "run demoOracle [SubmitEncryptedSolution 1 [] []]" 1 7]
  note u = verifySolution_without_path_panics [of _ 0 8 demoOracle session]
  from t7 a have "transact (verifySolution 1 7) (run demoOracle [SubmitEncryptedSolution 1 [] []])
       = (Some (Panic 0x32), run demoOracle [SubmitEncryptedSolution 1 [] []])" by blast
  moreover from t b have "verifySolution 2 8 (run demoOracle session) = Inl (Panic 0x32)"
    and "run demoOracle (session @ [VerifySolution 2 8]) = run demoOracle session" by blast+
  moreover from u have "verifySolution 0 8 (run demoOracle session) = Inl (Panic 0x32)" by blast
  ultimately show ?thesis using a b by blast
qed

end
